theory Spec2Isabelle
  imports Main
begin

section \<open>Data model\<close>

text \<open>
  The Prisma schema declares the \<^verbatim>\<open>User\<close> document: \<^verbatim>\<open>email\<close> and \<^verbatim>\<open>username\<close> carry
  \<^verbatim>\<open>@unique\<close>, \<^verbatim>\<open>role\<close> defaults to \<^verbatim>\<open>user\<close>, \<^verbatim>\<open>emailIsVerified\<close> defaults to false,
  \<^verbatim>\<open>createdAt\<close> defaults to \<^verbatim>\<open>now()\<close> and \<^verbatim>\<open>updatedAt\<close> is \<^verbatim>\<open>@updatedAt\<close>. The id column is
  called \<open>user_id\<close> here because \<open>id\<close> is the identity function of HOL. Time stamps are
  clock readings (natural numbers). The \<^verbatim>\<open>Address\<close> relation lives in a collection of its
  own and is not touched by the operations below.
\<close>

datatype Role = user | admin

record User =
  user_id :: string
  email :: string
  username :: string
  role :: Role
  password :: string
  phoneNumber :: "string option"
  emailIsVerified :: bool
  refreshToken :: "string option"
  createdAt :: nat
  updatedAt :: nat

text \<open>The collection of user documents, in insertion order.\<close>

type_synonym store = "User list"

text \<open>\<^verbatim>\<open>CreateUserDto\<close>: the fields \<^verbatim>\<open>data.email\<close>, \<^verbatim>\<open>data.username\<close>, \<^verbatim>\<open>data.password\<close>.\<close>

record CreateUserDto =
  dto_email :: string
  dto_username :: string
  dto_password :: string

text \<open>
  JavaScript objects that leave the service (the record returned by \<^verbatim>\<open>create\<close>, the
  payload of a token) are lists of key/value pairs.
\<close>

datatype jsval = JStr string | JBool bool | JNum nat | JNull

type_synonym jsobject = "(string \<times> jsval) list"

fun role_name :: "Role \<Rightarrow> string" where
  "role_name user = ''user''"
| "role_name admin = ''admin''"

fun nullable :: "string option \<Rightarrow> jsval" where
  "nullable None = JNull"
| "nullable (Some s) = JStr s"

text \<open>The object Prisma hands back for a stored document: one key per column.\<close>

definition user_object :: "User \<Rightarrow> jsobject" where
  "user_object u =
     [(''id'', JStr (user_id u)),
      (''email'', JStr (email u)),
      (''username'', JStr (username u)),
      (''role'', JStr (role_name (role u))),
      (''password'', JStr (password u)),
      (''phoneNumber'', nullable (phoneNumber u)),
      (''emailIsVerified'', JBool (emailIsVerified u)),
      (''refreshToken'', nullable (refreshToken u)),
      (''createdAt'', JNum (createdAt u)),
      (''updatedAt'', JNum (updatedAt u))]"

text \<open>\<^verbatim>\<open>const { password, ...result } = obj\<close>: every own key of the object except \<^verbatim>\<open>password\<close>.\<close>

definition rest_without_password :: "jsobject \<Rightarrow> jsobject" where
  "rest_without_password obj = filter (\<lambda>kv. fst kv \<noteq> ''password'') obj"

section \<open>Errors\<close>

text \<open>
  Everything the service can throw: the two NestJS HTTP exceptions it constructs itself,
  and errors raised by a library (jsonwebtoken, Prisma, the URL constructor), which are
  told apart by their \<^verbatim>\<open>name\<close> property as the \<^verbatim>\<open>catch\<close> blocks do.
\<close>

datatype exn =
    BadRequestException string
  | InternalServerErrorException string
  | LibraryError string string

fun error_name :: "exn \<Rightarrow> string" where
  "error_name (BadRequestException m) = ''BadRequestException''"
| "error_name (InternalServerErrorException m) = ''InternalServerErrorException''"
| "error_name (LibraryError n m) = n"

text \<open>The failure kinds of the specification, as the exceptions the service throws.\<close>

definition DuplicateEmail :: exn where
  "DuplicateEmail = BadRequestException ''The email address is already associated with an account.''"

definition UserNotFound :: exn where
  "UserNotFound = BadRequestException ''User not found''"

definition InvalidToken :: exn where
  "InvalidToken = BadRequestException ''Invalid token''"

definition TokenHasExpired :: exn where
  "TokenHasExpired = BadRequestException ''Token has expired''"

definition ConfigurationError :: exn where
  "ConfigurationError = InternalServerErrorException ''JWT secret is not set''"

section \<open>Collaborators\<close>

text \<open>\<^verbatim>\<open>process.env\<close>: the variables the service reads.\<close>

record env =
  JWT_SECRET :: "string option"
  NODE_ENV :: "string option"
  API_URL :: "string option"
  SMTP_FROM :: "string option"

text \<open>The message handed to \<^verbatim>\<open>mailerService.sendMail\<close>.\<close>

record mail =
  mail_from :: string
  mail_to :: string
  mail_subject :: string
  mail_html :: string

text \<open>
  The libraries the service calls are parameters of the model: \<^verbatim>\<open>argon2.hash\<close>,
  \<^verbatim>\<open>jwt.sign\<close> and \<^verbatim>\<open>jwt.verify\<close> (which read the clock, given as first argument),
  \<^verbatim>\<open>new URL(path, base)\<close> (\<open>None\<close> when the constructor throws),
  \<^verbatim>\<open>url.searchParams.set\<close> followed by \<^verbatim>\<open>toString\<close>, and the SMTP transport, which
  either accepts a message or throws.
\<close>

record libs =
  argon2_hash :: "string \<Rightarrow> string"
  jwt_sign :: "nat \<Rightarrow> jsobject \<Rightarrow> string \<Rightarrow> string \<Rightarrow> string"
  jwt_verify :: "nat \<Rightarrow> string \<Rightarrow> string \<Rightarrow> exn + jsobject"
  URL_new :: "string \<Rightarrow> string \<Rightarrow> string option"
  searchParams_set :: "string \<Rightarrow> string \<Rightarrow> string \<Rightarrow> string"
  smtp_accepts :: "mail \<Rightarrow> bool"

subsection \<open>The credential store (Prisma)\<close>

text \<open>\<^verbatim>\<open>prisma.user.findUnique({ where: { email } })\<close>.\<close>

definition findUnique_email :: "string \<Rightarrow> store \<Rightarrow> User option" where
  "findUnique_email e st = find (\<lambda>u. email u = e) st"

text \<open>
  \<^verbatim>\<open>prisma.user.create({ data: { email, username, password } })\<close>: the unique indexes on
  \<^verbatim>\<open>email\<close> and \<^verbatim>\<open>username\<close> reject a duplicate (error code P2002); otherwise the document
  is inserted with the schema's defaults, the id generated by the database and both time
  stamps set to the clock reading.
\<close>

definition prisma_user_create ::
  "nat \<Rightarrow> string \<Rightarrow> string \<Rightarrow> string \<Rightarrow> string \<Rightarrow> store \<Rightarrow> (exn + User) \<times> store" where
  "prisma_user_create now new_id e un pw st =
     (if \<exists>u \<in> set st. email u = e \<or> username u = un
      then (Inl (LibraryError ''PrismaClientKnownRequestError'' ''P2002''), st)
      else
        let u = \<lparr>user_id = new_id, email = e, username = un, role = user, password = pw,
                 phoneNumber = None, emailIsVerified = False, refreshToken = None,
                 createdAt = now, updatedAt = now\<rparr>
        in (Inr u, st @ [u]))"

section \<open>UsersService\<close>

text \<open>
  The sources hold two versions of the class. The model follows the fuller one, which
  has \<^verbatim>\<open>secret()\<close> and whose \<^verbatim>\<open>verifyEmailVerificationToken\<close> updates the user; the shorter
  one reads the secret as \<^verbatim>\<open>process.env.JWT_SECRET ?? 'development'\<close>, derives the username
  from the email and only returns the decoded payload. \<^verbatim>\<open>AuthService.create\<close> and the
  controller's \<^verbatim>\<open>create\<close> pass the request to \<^verbatim>\<open>UsersService.create\<close> and its result or
  exception back unchanged, so registration is \<open>create\<close> below.
\<close>

text \<open>
  \<^verbatim>\<open>process.env.X || fallback\<close>: an unset variable and the empty string are both falsy
  and give the fallback.
\<close>

fun or_default :: "string option \<Rightarrow> string \<Rightarrow> string" where
  "or_default None d = d"
| "or_default (Some s) d = (if s = [] then d else s)"

text \<open>
  \<^verbatim>\<open>secret()\<close>: the configured \<^verbatim>\<open>JWT_SECRET\<close>; when \<^verbatim>\<open>!secret\<close> holds (the variable is
  unset or empty), \<^verbatim>\<open>'default-secret'\<close> unless \<^verbatim>\<open>NODE_ENV\<close> is \<^verbatim>\<open>production\<close>, where it
  throws. Log lines are not modelled.
\<close>

definition secret :: "env \<Rightarrow> exn + string" where
  "secret ev =
     (case JWT_SECRET ev of
        None \<Rightarrow>
          (if NODE_ENV ev \<noteq> Some ''production'' then Inr ''default-secret''
           else Inl (InternalServerErrorException ''JWT secret is not set''))
      | Some s \<Rightarrow>
          (if s = [] then
             (if NODE_ENV ev \<noteq> Some ''production'' then Inr ''default-secret''
              else Inl (InternalServerErrorException ''JWT secret is not set''))
           else Inr s))"

text \<open>
  \<^verbatim>\<open>create(data)\<close>: look the email up; throw if a user has it; hash the password; insert
  the user inside \<^verbatim>\<open>try\<close>, where any error of the store becomes
  \<^verbatim>\<open>BadRequestException('Error creating user')\<close>; return the created document without its
  \<^verbatim>\<open>password\<close> key. The result is paired with the store after the call.
\<close>

definition create ::
  "libs \<Rightarrow> nat \<Rightarrow> string \<Rightarrow> CreateUserDto \<Rightarrow> store \<Rightarrow> (exn + jsobject) \<times> store" where
  "create L now new_id data st =
     (case findUnique_email (dto_email data) st of
        Some existingUser \<Rightarrow>
          (Inl (BadRequestException ''The email address is already associated with an account.''), st)
      | None \<Rightarrow>
          let hashedPassword = argon2_hash L (dto_password data) in
          (case prisma_user_create now new_id (dto_email data) (dto_username data) hashedPassword st of
             (Inl error, st') \<Rightarrow> (Inl (BadRequestException ''Error creating user''), st')
           | (Inr created, st') \<Rightarrow> (Inr (rest_without_password (user_object created)), st')))"

text \<open>
  \<^verbatim>\<open>prisma.user.update({ where: { email }, data: { emailIsVerified: true } })\<close>: the
  document with that email gets the flag and, by \<^verbatim>\<open>@updatedAt\<close>, a new \<^verbatim>\<open>updatedAt\<close>; when
  no document has the email the call throws (error code P2025).
\<close>

fun updateFirst :: "('a \<Rightarrow> bool) \<Rightarrow> ('a \<Rightarrow> 'a) \<Rightarrow> 'a list \<Rightarrow> 'a list" where
  "updateFirst P f [] = []"
| "updateFirst P f (x # xs) = (if P x then f x # xs else x # updateFirst P f xs)"

definition prisma_user_update_verified :: "nat \<Rightarrow> string \<Rightarrow> store \<Rightarrow> (exn + User) \<times> store" where
  "prisma_user_update_verified now e st =
     (case find (\<lambda>u. email u = e) st of
        None \<Rightarrow> (Inl (LibraryError ''PrismaClientKnownRequestError'' ''P2025''), st)
      | Some u \<Rightarrow>
          (Inr (u\<lparr>emailIsVerified := True, updatedAt := now\<rparr>),
           updateFirst (\<lambda>u. email u = e) (\<lambda>u. u\<lparr>emailIsVerified := True, updatedAt := now\<rparr>) st))"

text \<open>
  \<^verbatim>\<open>generateEmailVerificationToken(email, id)\<close>: throws when no user has the email;
  otherwise signs the payload \<^verbatim>\<open>{ email }\<close> with \<^verbatim>\<open>secret()\<close> and \<^verbatim>\<open>expiresIn: '1h'\<close>. The
  \<^verbatim>\<open>id\<close> argument is not used by the body. An exception of \<^verbatim>\<open>secret()\<close> propagates.
\<close>

definition generateEmailVerificationToken ::
  "libs \<Rightarrow> env \<Rightarrow> nat \<Rightarrow> string \<Rightarrow> string \<Rightarrow> store \<Rightarrow> exn + string" where
  "generateEmailVerificationToken L ev now e uid st =
     (case findUnique_email e st of
        None \<Rightarrow> Inl (BadRequestException ''User not found'')
      | Some found \<Rightarrow>
          (case secret ev of
             Inl error \<Rightarrow> Inl error
           | Inr s \<Rightarrow> Inr (jwt_sign L now [(''email'', JStr e)] s ''1h'')))"

text \<open>
  The \<^verbatim>\<open>try\<close> block of \<^verbatim>\<open>verifyEmailVerificationToken\<close>: resolve the secret, verify the
  token, read \<^verbatim>\<open>decodedToken.email\<close> and update that user. A payload without a string
  under \<^verbatim>\<open>email\<close> makes the \<^verbatim>\<open>where\<close> argument invalid, which Prisma rejects before it
  touches the collection.
\<close>

definition verifyEmail_try :: "libs \<Rightarrow> env \<Rightarrow> nat \<Rightarrow> string \<Rightarrow> store \<Rightarrow> (exn + string) \<times> store" where
  "verifyEmail_try L ev now token st =
     (case secret ev of
        Inl error \<Rightarrow> (Inl error, st)
      | Inr s \<Rightarrow>
          (case jwt_verify L now token s of
             Inl error \<Rightarrow> (Inl error, st)
           | Inr decoded \<Rightarrow>
               (case map_of decoded ''email'' of
                  Some (JStr e) \<Rightarrow>
                    (case prisma_user_update_verified now e st of
                       (Inl error, st') \<Rightarrow> (Inl error, st')
                     | (Inr updated, st') \<Rightarrow> (Inr ''Email verified successfully'', st'))
                | _ \<Rightarrow> (Inl (LibraryError ''PrismaClientValidationError'' ''where''), st))))"

text \<open>
  \<^verbatim>\<open>verifyEmailVerificationToken(token)\<close>: an empty token is rejected at once; any error
  caught from the \<^verbatim>\<open>try\<close> block is rethrown as \<^verbatim>\<open>'Token has expired'\<close> when its name is
  \<^verbatim>\<open>TokenExpiredError\<close> and as \<^verbatim>\<open>'Invalid token'\<close> otherwise.
\<close>

definition verifyEmailVerificationToken ::
  "libs \<Rightarrow> env \<Rightarrow> nat \<Rightarrow> string \<Rightarrow> store \<Rightarrow> (exn + string) \<times> store" where
  "verifyEmailVerificationToken L ev now token st =
     (if token = [] then (Inl (BadRequestException ''Invalid token''), st)
      else
        (case verifyEmail_try L ev now token st of
           (Inl error, st') \<Rightarrow>
             (if error_name error = ''TokenExpiredError''
              then (Inl (BadRequestException ''Token has expired''), st')
              else (Inl (BadRequestException ''Invalid token''), st'))
         | (Inr message, st') \<Rightarrow> (Inr message, st')))"

subsection \<open>Verification mail\<close>

text \<open>
  \<^verbatim>\<open>generateVerificationLink(token)\<close>: \<^verbatim>\<open>new URL('/verify-email', baseUrl)\<close> with the
  \<^verbatim>\<open>token\<close> query parameter set. The URL constructor throws a \<^verbatim>\<open>TypeError\<close> on a base it
  cannot parse.
\<close>

definition generateVerificationLink :: "libs \<Rightarrow> env \<Rightarrow> string \<Rightarrow> exn + string" where
  "generateVerificationLink L ev token =
     (let baseUrl = or_default (API_URL ev) ''http://localhost:8080'' in
      case URL_new L ''/verify-email'' baseUrl of
        None \<Rightarrow> Inl (LibraryError ''TypeError'' ''Invalid URL'')
      | Some url \<Rightarrow> Inr (searchParams_set L url ''token'' token))"

text \<open>
  \<^verbatim>\<open>sendEmail(email, subject, content)\<close>: hands the message to the mailer; a delivery
  error becomes \<^verbatim>\<open>InternalServerErrorException('Error sending email')\<close>. The second
  component is the list of messages the transport has accepted.
\<close>

definition sendEmail ::
  "libs \<Rightarrow> env \<Rightarrow> string \<Rightarrow> string \<Rightarrow> string \<Rightarrow> mail list \<Rightarrow> (exn + unit) \<times> mail list" where
  "sendEmail L ev e subject content outbox =
     (let m = \<lparr>mail_from = or_default (SMTP_FROM ev) ''stationphast@gmail.com'',
               mail_to = e, mail_subject = subject, mail_html = content\<rparr>
      in if smtp_accepts L m then (Inr (), outbox @ [m])
         else (Inl (InternalServerErrorException ''Error sending email''), outbox))"

text \<open>The double quote and the line feed of the template literals.\<close>

definition dq :: string where
  "dq = [CHR 0x22]"

definition nl :: string where
  "nl = [CHR 0x0A]"

definition generateEmailTemplate :: "string \<Rightarrow> string" where
  "generateEmailTemplate content =
     nl @ ''        <body style='' @ dq @ ''font-family: Arial, sans-serif; text-align: center;'' @ dq @ ''>''
     @ nl @ ''            '' @ content
     @ nl @ ''        </body>''
     @ nl @ ''    ''"

text \<open>The markup around the link in \<^verbatim>\<open>sendEmailVerificationEmail\<close>.\<close>

definition verification_markup :: "string \<Rightarrow> string" where
  "verification_markup verificationLink =
     nl @ ''        <h1>Welcome to MyLibrary!</h1>''
     @ nl @ ''        <p>Please click the button below to verify your email address</p>''
     @ nl @ ''        <a href='' @ dq @ verificationLink @ dq @ '' style='' @ dq
       @ ''background-color: #007bff; color: white; padding: 10px 20px; border-radius: 5px; text-decoration: none;''
       @ dq @ ''>''
     @ nl @ ''          <button style='' @ dq
       @ ''background-color: #007bff; color: white; padding: 10px 20px; text-decoration: none;''
       @ dq @ ''>''
     @ nl @ ''            Verify Email''
     @ nl @ ''          </button>''
     @ nl @ ''        </a>''
     @ nl @ ''    ''"

text \<open>
  \<^verbatim>\<open>sendEmailVerificationEmail(email, token)\<close>: build the link (an exception there
  propagates), wrap it in the template and send it with the subject
  \<^verbatim>\<open>'Email Verification'\<close>.
\<close>

definition sendEmailVerificationEmail ::
  "libs \<Rightarrow> env \<Rightarrow> string \<Rightarrow> string \<Rightarrow> mail list \<Rightarrow> (exn + unit) \<times> mail list" where
  "sendEmailVerificationEmail L ev e token outbox =
     (case generateVerificationLink L ev token of
        Inl error \<Rightarrow> (Inl error, outbox)
      | Inr verificationLink \<Rightarrow>
          sendEmail L ev e ''Email Verification''
            (generateEmailTemplate (verification_markup verificationLink)) outbox)"

section \<open>Session Manager and Token Issuer of the specification\<close>

text \<open>
  Modelled from the spec: \<open>requestEmailVerification\<close>, the Session Manager operation of
  section 4.3 ("fails with UserNotFound if no such user; otherwise issues a verification
  token and hands it to the Mail Notifier with a constructed verification link"). The
  service method that calls \<^verbatim>\<open>generateEmailVerificationToken\<close> and then
  \<^verbatim>\<open>sendEmailVerificationEmail\<close> is not among the sources; the two methods are, and are
  composed here in that order, an error of the first ending the operation.
\<close>

definition requestEmailVerification ::
  "libs \<Rightarrow> env \<Rightarrow> nat \<Rightarrow> string \<Rightarrow> string \<Rightarrow> store \<Rightarrow> mail list \<Rightarrow> (exn + unit) \<times> mail list" where
  "requestEmailVerification L ev now e uid st outbox =
     (case generateEmailVerificationToken L ev now e uid st of
        Inl error \<Rightarrow> (Inl error, outbox)
      | Inr token \<Rightarrow> sendEmailVerificationEmail L ev e token outbox)"

text \<open>
  Modelled from the spec: the tokens of the Token Issuer of section 4.2, "JSON-claim
  tokens signed with a process-wide secret", and its two failures. The jsonwebtoken
  library behind \<^verbatim>\<open>jwt.sign\<close> and \<^verbatim>\<open>jwt.verify\<close> and the \<^verbatim>\<open>TokenService\<close> the controller
  imports are not among the sources. A token carries its payload, the claims and the
  instant of expiry (\<open>None\<close> for a payload that does not decode), and a signature.
\<close>

datatype token_error = TokenExpiredError | TokenInvalidError

record 'c token =
  payload :: "('c \<times> nat) option"
  signature :: string

text \<open>
  Modelled from the spec: \<^verbatim>\<open>issue(claims, ttl) -> token\<close>. The token expires \<open>ttl\<close> after
  the clock reading at issue and is signed under the secret; the signing function is a
  parameter.
\<close>

definition issue :: "(string \<Rightarrow> 'c \<times> nat \<Rightarrow> string) \<Rightarrow> string \<Rightarrow> nat \<Rightarrow> 'c \<Rightarrow> nat \<Rightarrow> 'c token" where
  "issue sign sec now claims ttl =
     \<lparr>payload = Some (claims, now + ttl), signature = sign sec (claims, now + ttl)\<rparr>"

text \<open>
  Modelled from the spec: \<^verbatim>\<open>verify(token) -> claims\<close>, which "fails with
  TokenExpiredError when past expiry, TokenInvalidError for any other validation failure
  (bad signature, malformed payload)". The signature is checked before the expiry.
\<close>

definition verify ::
  "(string \<Rightarrow> 'c \<times> nat \<Rightarrow> string) \<Rightarrow> string \<Rightarrow> nat \<Rightarrow> 'c token \<Rightarrow> token_error + 'c" where
  "verify sign sec now t =
     (case payload t of
        None \<Rightarrow> Inl TokenInvalidError
      | Some (claims, expiry) \<Rightarrow>
          if signature t \<noteq> sign sec (claims, expiry) then Inl TokenInvalidError
          else if expiry \<le> now then Inl TokenExpiredError
          else Inr claims)"

section \<open>Sample instances\<close>

text \<open>
  Concrete collaborators and documents on which the definitions evaluate: a hasher that
  prefixes its input, a token library whose tokens name their key (verification tokens
  valid for the first 3600 clock ticks, and tokens with an \<^verbatim>\<open>id\<close> claim only), a mailer
  that accepts everything, a store holding one user,
  registration requests, environments and a message already accepted by the mailer. The
  sample URL constructor parses the bases that start with \<^verbatim>\<open>http\<close>.
\<close>

definition example_libs :: libs where
  "example_libs =
     \<lparr>argon2_hash = (\<lambda>p. ''$argon2id$'' @ p),
      jwt_sign = (\<lambda>now payload s ttl. ''tok.'' @ s),
      jwt_verify = (\<lambda>now token s.
         if token = ''tok.'' @ s
         then (if now < 3600 then Inr [(''email'', JStr ''a@x.com'')]
               else Inl (LibraryError ''TokenExpiredError'' ''jwt expired''))
         else if token = ''access.'' @ s then Inr [(''id'', JStr ''1'')]
         else Inl (LibraryError ''JsonWebTokenError'' ''invalid signature'')),
      URL_new = (\<lambda>path base.
         case base of
           CHR ''h'' # CHR ''t'' # CHR ''t'' # CHR ''p'' # rest \<Rightarrow> Some (base @ path)
         | _ \<Rightarrow> None),
      searchParams_set = (\<lambda>url k v. url @ ''?'' @ k @ ''='' @ v),
      smtp_accepts = (\<lambda>m. True)\<rparr>"

definition alice :: User where
  "alice = \<lparr>user_id = ''1'', email = ''a@x.com'', username = ''a'', role = user,
            password = ''$argon2id$P@ss1'', phoneNumber = None, emailIsVerified = False,
            refreshToken = None, createdAt = 1, updatedAt = 1\<rparr>"

definition bob_dto :: CreateUserDto where
  "bob_dto = \<lparr>dto_email = ''b@x.com'', dto_username = ''b'', dto_password = ''pw''\<rparr>"

definition alice_again_dto :: CreateUserDto where
  "alice_again_dto = \<lparr>dto_email = ''a@x.com'', dto_username = ''a2'', dto_password = ''pw''\<rparr>"

definition same_username_dto :: CreateUserDto where
  "same_username_dto = \<lparr>dto_email = ''c@x.com'', dto_username = ''a'', dto_password = ''pw''\<rparr>"

definition dave_dto :: CreateUserDto where
  "dave_dto = \<lparr>dto_email = ''d@x.com'', dto_username = ''a'', dto_password = ''pw2''\<rparr>"

definition dev_env :: env where
  "dev_env = \<lparr>JWT_SECRET = None, NODE_ENV = Some ''development'', API_URL = None, SMTP_FROM = None\<rparr>"

definition prod_env :: env where
  "prod_env = \<lparr>JWT_SECRET = None, NODE_ENV = Some ''production'', API_URL = None, SMTP_FROM = None\<rparr>"

definition configured_env :: env where
  "configured_env = \<lparr>JWT_SECRET = Some ''s3cret'', NODE_ENV = Some ''production'', API_URL = None, SMTP_FROM = None\<rparr>"

text \<open>A signing function for the tokens of the Token Issuer.\<close>

definition example_sign :: "string \<Rightarrow> string \<times> nat \<Rightarrow> string" where
  "example_sign sec body = sec @ ''/'' @ fst body"

definition alice_mail :: mail where
  "alice_mail = \<lparr>mail_from = ''stationphast@gmail.com'', mail_to = ''a@x.com'',
                  mail_subject = ''Hello'', mail_html = ''<p>Hello</p>''\<rparr>"

definition bad_url_env :: env where
  "bad_url_env = \<lparr>JWT_SECRET = None, NODE_ENV = Some ''development'',
                   API_URL = Some ''localhost'', SMTP_FROM = None\<rparr>"

section \<open>Properties\<close>

lemma findUnique_email_None: "findUnique_email e st = None \<longleftrightarrow> (\<forall>u \<in> set st. email u \<noteq> e)"
  by (auto simp: findUnique_email_def find_None_iff)

lemma findUnique_email_Some:
  "(\<exists>u \<in> set st. email u = e) \<Longrightarrow> \<exists>u. findUnique_email e st = Some u"
  using findUnique_email_None [of e st] by (cases "findUnique_email e st") auto

lemma find_after_miss: "find P xs = None \<Longrightarrow> find P (xs @ ys) = find P ys"
  by (induction xs) (auto split: if_splits)

lemma no_password_key: "''password'' \<notin> fst ` set (rest_without_password obj)"
  by (auto simp: rest_without_password_def)

subsection \<open>Registration\<close>

text \<open>
  A request whose email no stored user has is not always persisted: with the username of
  a stored user the insert is rejected, \<open>create\<close> fails with \<^verbatim>\<open>'Error creating user'\<close>
  and the store holds no document for that email afterwards.
\<close>

theorem register_fresh_email_not_persisted:
  "dto_email dave_dto \<notin> set (map email [alice])
   \<and> create example_libs 5 ''2'' dave_dto [alice]
       = (Inl (BadRequestException ''Error creating user''), [alice])
   \<and> findUnique_email (dto_email dave_dto) (snd (create example_libs 5 ''2'' dave_dto [alice]))
       = None"
  by (simp add: create_def findUnique_email_def prisma_user_create_def alice_def dave_dto_def)

text \<open>
  C1. A registration request whose email is the email of a stored user fails with
  \<open>DuplicateEmail\<close> and leaves the store as it was. A request whose email matches no
  stored user never fails with \<open>DuplicateEmail\<close>: the password is hashed and the insert is
  attempted with the digest; the new document is appended when the username is free as
  well, and otherwise \<open>create\<close> fails with \<^verbatim>\<open>'Error creating user'\<close> and the store is
  left as it was.
\<close>

theorem register_duplicate_email:
  "((\<exists>u \<in> set st. email u = dto_email data) \<longrightarrow>
      create L now nid data st = (Inl DuplicateEmail, st))
   \<and> ((\<forall>u \<in> set st. email u \<noteq> dto_email data) \<longrightarrow>
        fst (create L now nid data st) \<noteq> Inl DuplicateEmail
        \<and> create L now nid data st =
          (if \<exists>u \<in> set st. username u = dto_username data
           then (Inl (BadRequestException ''Error creating user''), st)
           else
             let u = \<lparr>user_id = nid, email = dto_email data, username = dto_username data,
                      role = user, password = argon2_hash L (dto_password data),
                      phoneNumber = None, emailIsVerified = False, refreshToken = None,
                      createdAt = now, updatedAt = now\<rparr>
             in (Inr (rest_without_password (user_object u)), st @ [u])))"
proof (intro conjI impI)
  assume "\<exists>u \<in> set st. email u = dto_email data"
  then obtain u where "findUnique_email (dto_email data) st = Some u"
    using findUnique_email_Some by blast
  then show "create L now nid data st = (Inl DuplicateEmail, st)"
    by (simp add: create_def DuplicateEmail_def)
next
  assume a: "\<forall>u \<in> set st. email u \<noteq> dto_email data"
  then have n: "findUnique_email (dto_email data) st = None"
    by (simp add: findUnique_email_None)
  show "fst (create L now nid data st) \<noteq> Inl DuplicateEmail"
    using n by (simp add: create_def DuplicateEmail_def prisma_user_create_def Let_def)
  show "create L now nid data st =
          (if \<exists>u \<in> set st. username u = dto_username data
           then (Inl (BadRequestException ''Error creating user''), st)
           else
             let u = \<lparr>user_id = nid, email = dto_email data, username = dto_username data,
                      role = user, password = argon2_hash L (dto_password data),
                      phoneNumber = None, emailIsVerified = False, refreshToken = None,
                      createdAt = now, updatedAt = now\<rparr>
             in (Inr (rest_without_password (user_object u)), st @ [u]))"
    using n a by (auto simp: create_def prisma_user_create_def Let_def)
qed

theorem register_duplicate_email_witness:
  "(\<exists>u \<in> set [alice]. email u = dto_email alice_again_dto)
   \<and> create example_libs 5 ''2'' alice_again_dto [alice] = (Inl DuplicateEmail, [alice])
   \<and> dto_email bob_dto \<notin> set (map email [alice])
   \<and> fst (create example_libs 5 ''2'' bob_dto [alice]) \<noteq> Inl DuplicateEmail
   \<and> map password (snd (create example_libs 5 ''2'' bob_dto [alice]))
       = [''$argon2id$P@ss1'', ''$argon2id$pw'']"
proof -
  have dup: "\<exists>u \<in> set [alice]. email u = dto_email alice_again_dto"
    by (simp add: alice_def alice_again_dto_def)
  have new: "\<forall>u \<in> set [alice]. email u \<noteq> dto_email bob_dto"
    by (simp add: alice_def bob_dto_def)
  have free: "\<not> (\<exists>u \<in> set [alice]. username u = dto_username bob_dto)"
    by (simp add: alice_def bob_dto_def)
  note rejected =
    register_duplicate_email [of "[alice]" alice_again_dto example_libs 5 "''2''",
      THEN conjunct1, THEN mp, OF dup]
  note accepted =
    register_duplicate_email [of "[alice]" bob_dto example_libs 5 "''2''",
      THEN conjunct2, THEN mp, OF new]
  have stored: "map password (snd (create example_libs 5 ''2'' bob_dto [alice]))
                  = [''$argon2id$P@ss1'', ''$argon2id$pw'']"
    unfolding accepted [THEN conjunct2] using free
    by (simp add: Let_def alice_def bob_dto_def example_libs_def)
  have miss: "dto_email bob_dto \<notin> set (map email [alice])"
    using new by auto
  show ?thesis
    using dup miss rejected accepted [THEN conjunct1] stored by blast
qed

text \<open>
  A request with an email no stored user has, but with the username of a stored user, is
  rejected by the unique index on \<^verbatim>\<open>username\<close>: \<open>create\<close> fails with
  \<^verbatim>\<open>'Error creating user'\<close>.
\<close>

theorem register_taken_username_fails:
  "dto_email same_username_dto \<notin> set (map email [alice])
   \<and> (dto_email same_username_dto, dto_username same_username_dto)
        \<notin> set (map (\<lambda>v. (email v, username v)) [alice])
   \<and> create example_libs 5 ''2'' same_username_dto [alice]
       = (Inl (BadRequestException ''Error creating user''), [alice])"
  by (simp add: create_def findUnique_email_def prisma_user_create_def alice_def
        same_username_dto_def)

text \<open>
  C2. When neither the email nor the username of the request is taken, \<open>create\<close>
  succeeds; the object it returns has no \<^verbatim>\<open>password\<close> key; the document stored under the
  email carries the digest computed by the hasher, which is not the plaintext whenever
  the hasher's digest of that password is not the password itself.
\<close>

theorem register_stores_digest:
  assumes fresh: "\<forall>u \<in> set st. email u \<noteq> dto_email data \<and> username u \<noteq> dto_username data"
  shows "\<exists>obj created.
           create L now nid data st = (Inr obj, st @ [created])
           \<and> ''password'' \<notin> fst ` set obj
           \<and> obj = rest_without_password (user_object created)
           \<and> findUnique_email (dto_email data) (st @ [created]) = Some created
           \<and> email created = dto_email data
           \<and> username created = dto_username data
           \<and> password created = argon2_hash L (dto_password data)
           \<and> (argon2_hash L (dto_password data) \<noteq> dto_password data
                \<longrightarrow> password created \<noteq> dto_password data)"
proof -
  define created where
    "created = \<lparr>user_id = nid, email = dto_email data, username = dto_username data,
                 role = user, password = argon2_hash L (dto_password data),
                 phoneNumber = None, emailIsVerified = False, refreshToken = None,
                 createdAt = now, updatedAt = now\<rparr>"
  have none: "findUnique_email (dto_email data) st = None"
    using fresh by (simp add: findUnique_email_None)
  have ins: "prisma_user_create now nid (dto_email data) (dto_username data)
               (argon2_hash L (dto_password data)) st = (Inr created, st @ [created])"
    using fresh by (auto simp: prisma_user_create_def created_def Let_def)
  have run: "create L now nid data st =
               (Inr (rest_without_password (user_object created)), st @ [created])"
    using none ins by (simp add: create_def)
  have look: "findUnique_email (dto_email data) (st @ [created]) = Some created"
    using none by (simp add: findUnique_email_def find_after_miss created_def)
  show ?thesis
    using run look no_password_key [of "user_object created"]
    by (intro exI [of _ "rest_without_password (user_object created)"] exI [of _ created])
       (simp add: created_def)
qed

theorem register_stores_digest_witness:
  "dto_email bob_dto \<notin> set (map email [alice])
   \<and> dto_username bob_dto \<notin> set (map username [alice])
   \<and> (\<exists>obj created.
         create example_libs 5 ''2'' bob_dto [alice] = (Inr obj, [alice] @ [created])
         \<and> ''password'' \<notin> fst ` set obj
         \<and> password created = ''$argon2id$pw''
         \<and> password created \<noteq> dto_password bob_dto)"
proof -
  have fresh: "\<forall>u \<in> set [alice]. email u \<noteq> dto_email bob_dto \<and> username u \<noteq> dto_username bob_dto"
    by (simp add: alice_def bob_dto_def)
  have digest: "argon2_hash example_libs (dto_password bob_dto) = ''$argon2id$pw''"
    by (simp add: example_libs_def bob_dto_def)
  from register_stores_digest [OF fresh, of example_libs 5 "''2''"]
  obtain obj created where
    "create example_libs 5 ''2'' bob_dto [alice] = (Inr obj, [alice] @ [created])"
    "''password'' \<notin> fst ` set obj"
    "password created = argon2_hash example_libs (dto_password bob_dto)"
    by blast
  moreover have "dto_email bob_dto \<notin> set (map email [alice])"
    and "dto_username bob_dto \<notin> set (map username [alice])"
    using fresh by auto
  ultimately show ?thesis
    using digest by (auto simp: bob_dto_def)
qed

text \<open>
  C6. A failed \<open>create\<close>, whether the email was a duplicate or the insert was rejected
  after the password had been hashed, leaves the store exactly as it was.
\<close>

theorem register_failure_leaves_store:
  "fst (create L now nid data st) = Inl err \<Longrightarrow>
     snd (create L now nid data st) = st
     \<and> (err = DuplicateEmail \<or> err = BadRequestException ''Error creating user'')"
  by (auto simp: create_def prisma_user_create_def Let_def DuplicateEmail_def
           split: option.splits if_splits)

theorem register_failure_leaves_store_witness:
  "fst (create example_libs 5 ''2'' alice_again_dto [alice]) = Inl DuplicateEmail
   \<and> snd (create example_libs 5 ''2'' alice_again_dto [alice]) = [alice]
   \<and> fst (create example_libs 5 ''2'' same_username_dto [alice])
       = Inl (BadRequestException ''Error creating user'')
   \<and> snd (create example_libs 5 ''2'' same_username_dto [alice]) = [alice]"
proof -
  have d: "fst (create example_libs 5 ''2'' alice_again_dto [alice]) = Inl DuplicateEmail"
    by (simp add: create_def findUnique_email_def alice_def alice_again_dto_def DuplicateEmail_def)
  have p: "fst (create example_libs 5 ''2'' same_username_dto [alice])
             = Inl (BadRequestException ''Error creating user'')"
    by (simp add: create_def findUnique_email_def prisma_user_create_def alice_def
          same_username_dto_def)
  show ?thesis
    using d p register_failure_leaves_store [OF d] register_failure_leaves_store [OF p]
    by simp
qed

subsection \<open>Email verification\<close>

lemma find_updateFirst:
  "find P xs = Some u \<Longrightarrow> P (f u) \<Longrightarrow> find P (updateFirst P f xs) = Some (f u)"
  by (induction xs) (auto split: if_splits)

lemma filter_updateFirst:
  "(\<And>x. P x \<Longrightarrow> P (f x)) \<Longrightarrow>
     filter (\<lambda>x. \<not> P x) (updateFirst P f xs) = filter (\<lambda>x. \<not> P x) xs"
  by (induction xs) auto

lemma verifyEmail_rejected:
  assumes "token \<noteq> []" "secret ev = Inr s" "jwt_verify L now token s = Inl err"
  shows "verifyEmailVerificationToken L ev now token st =
           (Inl (if error_name err = ''TokenExpiredError'' then TokenHasExpired else InvalidToken), st)"
  using assms
  by (simp add: verifyEmailVerificationToken_def verifyEmail_try_def TokenHasExpired_def
        InvalidToken_def)

lemma verifyEmail_accepted:
  assumes "token \<noteq> []" "secret ev = Inr s" "jwt_verify L now token s = Inr decoded"
    "map_of decoded ''email'' = Some (JStr e)" "findUnique_email e st = Some u"
  shows "verifyEmailVerificationToken L ev now token st =
           (Inr ''Email verified successfully'',
            updateFirst (\<lambda>v. email v = e) (\<lambda>v. v\<lparr>emailIsVerified := True, updatedAt := now\<rparr>) st)"
  using assms
  by (simp add: verifyEmailVerificationToken_def verifyEmail_try_def
        prisma_user_update_verified_def findUnique_email_def)

lemma verifyEmail_unknown_user:
  assumes "token \<noteq> []" "secret ev = Inr s" "jwt_verify L now token s = Inr decoded"
    "map_of decoded ''email'' = Some (JStr e)" "findUnique_email e st = None"
  shows "verifyEmailVerificationToken L ev now token st = (Inl InvalidToken, st)"
  using assms
  by (simp add: verifyEmailVerificationToken_def verifyEmail_try_def InvalidToken_def
        prisma_user_update_verified_def findUnique_email_def)

lemma verifyEmail_no_email_claim:
  assumes "token \<noteq> []" "secret ev = Inr s" "jwt_verify L now token s = Inr decoded"
    "\<forall>e. map_of decoded ''email'' \<noteq> Some (JStr e)"
  shows "verifyEmailVerificationToken L ev now token st = (Inl InvalidToken, st)"
proof (cases "map_of decoded ''email''")
  case None
  with assms show ?thesis
    by (simp add: verifyEmailVerificationToken_def verifyEmail_try_def InvalidToken_def)
next
  case (Some v)
  with assms(4) have "\<forall>e. v \<noteq> JStr e"
    by simp
  with Some assms(1-3) show ?thesis
    by (cases v)
       (simp_all add: verifyEmailVerificationToken_def verifyEmail_try_def InvalidToken_def)
qed

lemma verifyEmail_no_secret:
  assumes "secret ev = Inl err"
  shows "verifyEmailVerificationToken L ev now token st = (Inl InvalidToken, st)"
proof (cases "token = []")
  case True
  then show ?thesis by (simp add: verifyEmailVerificationToken_def InvalidToken_def)
next
  case False
  from assms have "err = InternalServerErrorException ''JWT secret is not set''"
    by (auto simp: secret_def split: option.splits if_splits)
  with assms False show ?thesis
    by (simp add: verifyEmailVerificationToken_def verifyEmail_try_def InvalidToken_def)
qed

text \<open>
  C4. \<open>verifyEmailVerificationToken\<close> rejects an empty token and every token the issuer's
  \<^verbatim>\<open>jwt.verify\<close> rejects with a \<open>BadRequestException\<close>: \<^verbatim>\<open>'Token has expired'\<close> when the
  library's error is named \<^verbatim>\<open>TokenExpiredError\<close>, \<^verbatim>\<open>'Invalid token'\<close> for every other
  error, and the two differ; the store is untouched. On a token that verifies and whose
  \<^verbatim>\<open>email\<close> claim names a stored user, it succeeds, that user's \<open>emailIsVerified\<close> becomes
  true (with \<open>updatedAt\<close> refreshed) and no other document changes. A verified token
  that names no stored user or carries no string \<^verbatim>\<open>email\<close> claim, and a secret that does
  not resolve, are answered with \<^verbatim>\<open>'Invalid token'\<close> as well.
\<close>

theorem verifyEmail_outcomes:
  "(token = [] \<longrightarrow> verifyEmailVerificationToken L ev now token st = (Inl InvalidToken, st))
   \<and> (token \<noteq> [] \<and> secret ev = Inr s \<and> jwt_verify L now token s = Inl err \<longrightarrow>
        verifyEmailVerificationToken L ev now token st =
          (Inl (if error_name err = ''TokenExpiredError'' then TokenHasExpired else InvalidToken), st))
   \<and> TokenHasExpired \<noteq> InvalidToken
   \<and> (token \<noteq> [] \<and> secret ev = Inr s \<and> jwt_verify L now token s = Inr decoded
        \<and> map_of decoded ''email'' = Some (JStr e) \<and> findUnique_email e st = Some u \<longrightarrow>
        (\<exists>st'. verifyEmailVerificationToken L ev now token st =
                  (Inr ''Email verified successfully'', st')
           \<and> findUnique_email e st' = Some (u\<lparr>emailIsVerified := True, updatedAt := now\<rparr>)
           \<and> filter (\<lambda>v. email v \<noteq> e) st' = filter (\<lambda>v. email v \<noteq> e) st
           \<and> length st' = length st))
   \<and> (token \<noteq> [] \<and> secret ev = Inr s \<and> jwt_verify L now token s = Inr decoded
        \<and> map_of decoded ''email'' = Some (JStr e) \<and> findUnique_email e st = None \<longrightarrow>
        verifyEmailVerificationToken L ev now token st = (Inl InvalidToken, st))
   \<and> (token \<noteq> [] \<and> secret ev = Inr s \<and> jwt_verify L now token s = Inr decoded
        \<and> (\<forall>a. map_of decoded ''email'' \<noteq> Some (JStr a)) \<longrightarrow>
        verifyEmailVerificationToken L ev now token st = (Inl InvalidToken, st))
   \<and> (secret ev = Inl err \<longrightarrow>
        verifyEmailVerificationToken L ev now token st = (Inl InvalidToken, st))"
proof (intro conjI impI)
  assume "secret ev = Inl err"
  then show "verifyEmailVerificationToken L ev now token st = (Inl InvalidToken, st)"
    by (rule verifyEmail_no_secret)
next
  assume "token \<noteq> [] \<and> secret ev = Inr s \<and> jwt_verify L now token s = Inr decoded
        \<and> (\<forall>a. map_of decoded ''email'' \<noteq> Some (JStr a))"
  then show "verifyEmailVerificationToken L ev now token st = (Inl InvalidToken, st)"
    using verifyEmail_no_email_claim by blast
next
  assume "token \<noteq> [] \<and> secret ev = Inr s \<and> jwt_verify L now token s = Inr decoded
        \<and> map_of decoded ''email'' = Some (JStr e) \<and> findUnique_email e st = None"
  then show "verifyEmailVerificationToken L ev now token st = (Inl InvalidToken, st)"
    using verifyEmail_unknown_user by blast
next
  show "TokenHasExpired \<noteq> InvalidToken"
    by (simp add: TokenHasExpired_def InvalidToken_def)
next
  assume "token = []"
  then show "verifyEmailVerificationToken L ev now token st = (Inl InvalidToken, st)"
    by (simp add: verifyEmailVerificationToken_def InvalidToken_def)
next
  assume "token \<noteq> [] \<and> secret ev = Inr s \<and> jwt_verify L now token s = Inl err"
  then show "verifyEmailVerificationToken L ev now token st =
          (Inl (if error_name err = ''TokenExpiredError'' then TokenHasExpired else InvalidToken), st)"
    using verifyEmail_rejected by blast
next
  let ?P = "\<lambda>v. email v = e"
  let ?f = "\<lambda>v. v\<lparr>emailIsVerified := True, updatedAt := now\<rparr>"
  assume a: "token \<noteq> [] \<and> secret ev = Inr s \<and> jwt_verify L now token s = Inr decoded
        \<and> map_of decoded ''email'' = Some (JStr e) \<and> findUnique_email e st = Some u"
  then have run: "verifyEmailVerificationToken L ev now token st =
                    (Inr ''Email verified successfully'', updateFirst ?P ?f st)"
    using verifyEmail_accepted by blast
  from a have fu: "find ?P st = Some u"
    by (simp add: findUnique_email_def)
  then have "?P u"
    by (auto simp: find_Some_iff)
  then have look: "findUnique_email e (updateFirst ?P ?f st) = Some (?f u)"
    using fu find_updateFirst [of ?P st u ?f] by (simp add: findUnique_email_def)
  have rest: "filter (\<lambda>v. \<not> ?P v) (updateFirst ?P ?f st) = filter (\<lambda>v. \<not> ?P v) st"
    by (rule filter_updateFirst) simp
  have len: "length (updateFirst ?P ?f st) = length st"
    by (induction st) auto
  show "\<exists>st'. verifyEmailVerificationToken L ev now token st =
                  (Inr ''Email verified successfully'', st')
           \<and> findUnique_email e st' = Some (u\<lparr>emailIsVerified := True, updatedAt := now\<rparr>)
           \<and> filter (\<lambda>v. email v \<noteq> e) st' = filter (\<lambda>v. email v \<noteq> e) st
           \<and> length st' = length st"
    using run look rest len by blast
qed


theorem verifyEmail_outcomes_witness:
  "verifyEmailVerificationToken example_libs dev_env 5 [] [alice] = (Inl InvalidToken, [alice])
   \<and> verifyEmailVerificationToken example_libs dev_env 3600 ''tok.default-secret'' [alice]
       = (Inl TokenHasExpired, [alice])
   \<and> verifyEmailVerificationToken example_libs dev_env 5 ''forged'' [alice]
       = (Inl InvalidToken, [alice])
   \<and> (\<exists>st'. verifyEmailVerificationToken example_libs dev_env 5 ''tok.default-secret'' [alice]
               = (Inr ''Email verified successfully'', st')
          \<and> map emailIsVerified st' = [True])
   \<and> verifyEmailVerificationToken example_libs dev_env 5 ''tok.default-secret'' [] = (Inl InvalidToken, [])
   \<and> verifyEmailVerificationToken example_libs dev_env 5 ''access.default-secret'' [alice]
       = (Inl InvalidToken, [alice])
   \<and> verifyEmailVerificationToken example_libs prod_env 5 ''tok.default-secret'' [alice]
       = (Inl InvalidToken, [alice])"
proof -
  have sec: "secret dev_env = Inr ''default-secret''"
    by (simp add: secret_def dev_env_def)
  have late: "jwt_verify example_libs 3600 ''tok.default-secret'' ''default-secret''
                = Inl (LibraryError ''TokenExpiredError'' ''jwt expired'')"
    by (simp add: example_libs_def)
  have forged: "jwt_verify example_libs 5 ''forged'' ''default-secret''
                  = Inl (LibraryError ''JsonWebTokenError'' ''invalid signature'')"
    by (simp add: example_libs_def)
  have good: "jwt_verify example_libs 5 ''tok.default-secret'' ''default-secret''
                = Inr [(''email'', JStr ''a@x.com'')]"
    by (simp add: example_libs_def)
  have claim: "map_of [(''email'', JStr ''a@x.com'')] ''email'' = Some (JStr ''a@x.com'')"
    by simp
  have stored: "findUnique_email ''a@x.com'' [alice] = Some alice"
    by (simp add: findUnique_email_def alice_def)
  have w1: "verifyEmailVerificationToken example_libs dev_env 5 [] [alice]
              = (Inl InvalidToken, [alice])"
    using verifyEmail_outcomes [of "[]" example_libs dev_env 5 "[alice]", THEN conjunct1]
    by simp
  have w2: "verifyEmailVerificationToken example_libs dev_env 3600 ''tok.default-secret'' [alice]
              = (Inl TokenHasExpired, [alice])"
    using verifyEmail_outcomes [of "''tok.default-secret''" example_libs dev_env 3600 "[alice]"
        "''default-secret''" "LibraryError ''TokenExpiredError'' ''jwt expired''",
        THEN conjunct2, THEN conjunct1] sec late
    by simp
  have w3: "verifyEmailVerificationToken example_libs dev_env 5 ''forged'' [alice]
              = (Inl InvalidToken, [alice])"
    using verifyEmail_outcomes [of "''forged''" example_libs dev_env 5 "[alice]"
        "''default-secret''" "LibraryError ''JsonWebTokenError'' ''invalid signature''",
        THEN conjunct2, THEN conjunct1] sec forged
    by simp
  from verifyEmail_outcomes [of "''tok.default-secret''" example_libs dev_env 5 "[alice]"
        "''default-secret''" _ "[(''email'', JStr ''a@x.com'')]" "''a@x.com''" alice,
        THEN conjunct2, THEN conjunct2, THEN conjunct2, THEN conjunct1] sec good claim stored
  obtain st' where
    run: "verifyEmailVerificationToken example_libs dev_env 5 ''tok.default-secret'' [alice]
            = (Inr ''Email verified successfully'', st')"
    and look: "findUnique_email ''a@x.com'' st'
                 = Some (alice\<lparr>emailIsVerified := True, updatedAt := 5\<rparr>)"
    and len: "length st' = length [alice]"
    by auto
  have w5: "verifyEmailVerificationToken example_libs dev_env 5 ''tok.default-secret'' [] = (Inl InvalidToken, [])"
    using verifyEmail_outcomes [of "''tok.default-secret''" example_libs dev_env 5 "[]"
        "''default-secret''" _ "[(''email'', JStr ''a@x.com'')]" "''a@x.com''",
        THEN conjunct2, THEN conjunct2, THEN conjunct2, THEN conjunct2, THEN conjunct1]
      sec good claim
    by (simp add: findUnique_email_def)
  have other: "jwt_verify example_libs 5 ''access.default-secret'' ''default-secret''
                 = Inr [(''id'', JStr ''1'')]"
    by (simp add: example_libs_def)
  have w6: "verifyEmailVerificationToken example_libs dev_env 5 ''access.default-secret'' [alice]
              = (Inl InvalidToken, [alice])"
    using verifyEmail_outcomes [where token = "''access.default-secret''" and L = example_libs
        and ev = dev_env and now = 5 and st = "[alice]" and s = "''default-secret''"
        and decoded = "[(''id'', JStr ''1'')]",
        THEN conjunct2, THEN conjunct2, THEN conjunct2, THEN conjunct2, THEN conjunct2,
        THEN conjunct1] sec other
    by simp
  have no_sec: "secret prod_env = Inl (InternalServerErrorException ''JWT secret is not set'')"
    by (simp add: secret_def prod_env_def)
  have w7: "verifyEmailVerificationToken example_libs prod_env 5 ''tok.default-secret'' [alice]
              = (Inl InvalidToken, [alice])"
    using verifyEmail_outcomes [where token = "''tok.default-secret''" and L = example_libs
        and ev = prod_env and now = 5 and st = "[alice]"
        and err = "InternalServerErrorException ''JWT secret is not set''",
        THEN conjunct2, THEN conjunct2, THEN conjunct2, THEN conjunct2, THEN conjunct2,
        THEN conjunct2] no_sec
    by simp
  from len obtain v where v: "st' = [v]"
    by (cases st') auto
  with look have "v = alice\<lparr>emailIsVerified := True, updatedAt := 5\<rparr>"
    by (auto simp: findUnique_email_def split: if_splits)
  with v have "map emailIsVerified st' = [True]"
    by simp
  with w1 w2 w3 w5 w6 w7 run show ?thesis
    by (intro conjI exI [of _ st']) simp_all
qed

subsection \<open>Secret resolution\<close>

text \<open>
  C5. When \<^verbatim>\<open>JWT_SECRET\<close> is absent (unset or empty) and \<^verbatim>\<open>NODE_ENV\<close> is \<^verbatim>\<open>production\<close>,
  \<open>secret\<close> throws and both operations that need it fail: token generation with the
  configuration error (after the user lookup), verification with \<^verbatim>\<open>'Invalid token'\<close>, into
  which its \<^verbatim>\<open>catch\<close> turns the error. Absent outside production, the secret is
  \<^verbatim>\<open>'default-secret'\<close>: generation signs with it and verification behaves as if it were
  configured. A configured non-empty value is the key handed to \<^verbatim>\<open>jwt.sign\<close> and
  \<^verbatim>\<open>jwt.verify\<close>.
\<close>

theorem secret_resolution:
  "((JWT_SECRET ev = None \<or> JWT_SECRET ev = Some []) \<and> NODE_ENV ev = Some ''production'' \<longrightarrow>
       secret ev = Inl ConfigurationError
       \<and> generateEmailVerificationToken L ev now e uid st =
           (if findUnique_email e st = None then Inl UserNotFound else Inl ConfigurationError)
       \<and> verifyEmailVerificationToken L ev now token st = (Inl InvalidToken, st))
   \<and> ((JWT_SECRET ev = None \<or> JWT_SECRET ev = Some []) \<and> NODE_ENV ev \<noteq> Some ''production'' \<longrightarrow>
       secret ev = Inr ''default-secret''
       \<and> generateEmailVerificationToken L ev now e uid st =
           (if findUnique_email e st = None then Inl UserNotFound
            else Inr (jwt_sign L now [(''email'', JStr e)] ''default-secret'' ''1h''))
       \<and> verifyEmailVerificationToken L ev now token st =
           verifyEmailVerificationToken L (ev\<lparr>JWT_SECRET := Some ''default-secret''\<rparr>) now token st)
   \<and> (JWT_SECRET ev = Some s \<and> s \<noteq> [] \<longrightarrow>
       secret ev = Inr s
       \<and> generateEmailVerificationToken L ev now e uid st =
           (if findUnique_email e st = None then Inl UserNotFound
            else Inr (jwt_sign L now [(''email'', JStr e)] s ''1h''))
       \<and> (token \<noteq> [] \<and> jwt_verify L now token s = Inl err \<longrightarrow>
            verifyEmailVerificationToken L ev now token st =
              (Inl (if error_name err = ''TokenExpiredError'' then TokenHasExpired
                    else InvalidToken), st))
       \<and> (token \<noteq> [] \<and> jwt_verify L now token s = Inr decoded
            \<and> map_of decoded ''email'' = Some (JStr e) \<and> findUnique_email e st = Some u \<longrightarrow>
            fst (verifyEmailVerificationToken L ev now token st)
              = Inr ''Email verified successfully''))"
proof (intro conjI impI)
  assume a: "(JWT_SECRET ev = None \<or> JWT_SECRET ev = Some []) \<and> NODE_ENV ev = Some ''production''"
  then show sec: "secret ev = Inl ConfigurationError"
    by (auto simp: secret_def ConfigurationError_def)
  then show "generateEmailVerificationToken L ev now e uid st =
           (if findUnique_email e st = None then Inl UserNotFound else Inl ConfigurationError)"
    by (auto simp: generateEmailVerificationToken_def UserNotFound_def)
  from sec show "verifyEmailVerificationToken L ev now token st = (Inl InvalidToken, st)"
    by (rule verifyEmail_no_secret)
next
  assume a: "(JWT_SECRET ev = None \<or> JWT_SECRET ev = Some []) \<and> NODE_ENV ev \<noteq> Some ''production''"
  then show sec: "secret ev = Inr ''default-secret''"
    by (auto simp: secret_def)
  then show "generateEmailVerificationToken L ev now e uid st =
           (if findUnique_email e st = None then Inl UserNotFound
            else Inr (jwt_sign L now [(''email'', JStr e)] ''default-secret'' ''1h''))"
    by (auto simp: generateEmailVerificationToken_def UserNotFound_def)
  have "secret (ev\<lparr>JWT_SECRET := Some ''default-secret''\<rparr>) = Inr ''default-secret''"
    by (simp add: secret_def)
  with sec show "verifyEmailVerificationToken L ev now token st =
           verifyEmailVerificationToken L (ev\<lparr>JWT_SECRET := Some ''default-secret''\<rparr>) now token st"
    by (simp add: verifyEmailVerificationToken_def verifyEmail_try_def)
next
  assume a: "JWT_SECRET ev = Some s \<and> s \<noteq> []"
  then show sec: "secret ev = Inr s"
    by (simp add: secret_def)
  then show "generateEmailVerificationToken L ev now e uid st =
           (if findUnique_email e st = None then Inl UserNotFound
            else Inr (jwt_sign L now [(''email'', JStr e)] s ''1h''))"
    by (auto simp: generateEmailVerificationToken_def UserNotFound_def)
  {
    assume "token \<noteq> [] \<and> jwt_verify L now token s = Inl err"
    with sec show "verifyEmailVerificationToken L ev now token st =
              (Inl (if error_name err = ''TokenExpiredError'' then TokenHasExpired
                    else InvalidToken), st)"
      using verifyEmail_rejected by blast
  }
  {
    assume "token \<noteq> [] \<and> jwt_verify L now token s = Inr decoded
            \<and> map_of decoded ''email'' = Some (JStr e) \<and> findUnique_email e st = Some u"
    with sec show "fst (verifyEmailVerificationToken L ev now token st)
              = Inr ''Email verified successfully''"
      using verifyEmail_accepted [of token ev s L now decoded e st u] by simp
  }
qed


theorem secret_resolution_witness:
  "secret prod_env = Inl ConfigurationError
   \<and> generateEmailVerificationToken example_libs prod_env 5 ''a@x.com'' ''1'' [alice]
       = Inl ConfigurationError
   \<and> verifyEmailVerificationToken example_libs prod_env 5 ''tok.default-secret'' [alice]
       = (Inl InvalidToken, [alice])
   \<and> secret dev_env = Inr ''default-secret''
   \<and> generateEmailVerificationToken example_libs dev_env 5 ''a@x.com'' ''1'' [alice]
       = Inr ''tok.default-secret''
   \<and> secret configured_env = Inr ''s3cret''
   \<and> generateEmailVerificationToken example_libs configured_env 5 ''a@x.com'' ''1'' [alice]
       = Inr ''tok.s3cret''
   \<and> verifyEmailVerificationToken example_libs configured_env 5 ''tok.default-secret'' [alice]
       = (Inl InvalidToken, [alice])
   \<and> fst (verifyEmailVerificationToken example_libs configured_env 5 ''tok.s3cret'' [alice])
       = Inr ''Email verified successfully''"
proof -
  have stored: "findUnique_email ''a@x.com'' [alice] = Some alice"
    by (simp add: findUnique_email_def alice_def)
  have p: "(JWT_SECRET prod_env = None \<or> JWT_SECRET prod_env = Some [])
             \<and> NODE_ENV prod_env = Some ''production''"
    by (simp add: prod_env_def)
  have d: "(JWT_SECRET dev_env = None \<or> JWT_SECRET dev_env = Some [])
             \<and> NODE_ENV dev_env \<noteq> Some ''production''"
    by (simp add: dev_env_def)
  have c: "JWT_SECRET configured_env = Some ''s3cret'' \<and> ''s3cret'' \<noteq> []"
    by (simp add: configured_env_def)
  note in_prod =
    secret_resolution [of prod_env example_libs 5 "''a@x.com''" "''1''" "[alice]"
      "''tok.default-secret''", THEN conjunct1, THEN mp, OF p]
  note in_dev =
    secret_resolution [of dev_env example_libs 5 "''a@x.com''" "''1''" "[alice]"
      "''tok.default-secret''", THEN conjunct2, THEN conjunct1, THEN mp, OF d]
  note wrong_key =
    secret_resolution [of configured_env example_libs 5 "''a@x.com''" "''1''" "[alice]"
      "''tok.default-secret''" "''s3cret''"
      "LibraryError ''JsonWebTokenError'' ''invalid signature''",
      THEN conjunct2, THEN conjunct2, THEN mp, OF c]
  note right_key =
    secret_resolution [of configured_env example_libs 5 "''a@x.com''" "''1''" "[alice]"
      "''tok.s3cret''" "''s3cret''" _ "[(''email'', JStr ''a@x.com'')]" alice,
      THEN conjunct2, THEN conjunct2, THEN mp, OF c]
  have w1: "generateEmailVerificationToken example_libs prod_env 5 ''a@x.com'' ''1'' [alice]
              = Inl ConfigurationError"
    using in_prod stored by simp
  have w2: "generateEmailVerificationToken example_libs dev_env 5 ''a@x.com'' ''1'' [alice]
              = Inr ''tok.default-secret''"
    using in_dev stored by (simp add: example_libs_def)
  have w3: "generateEmailVerificationToken example_libs configured_env 5 ''a@x.com'' ''1'' [alice]
              = Inr ''tok.s3cret''"
    using wrong_key stored by (simp add: example_libs_def)
  have w4: "verifyEmailVerificationToken example_libs configured_env 5 ''tok.default-secret'' [alice]
              = (Inl InvalidToken, [alice])"
    using wrong_key by (simp add: example_libs_def)
  have w5: "fst (verifyEmailVerificationToken example_libs configured_env 5 ''tok.s3cret'' [alice])
              = Inr ''Email verified successfully''"
    using right_key stored by (simp add: example_libs_def)
  show ?thesis
    using in_prod in_dev wrong_key w1 w2 w3 w4 w5 by simp
qed

subsection \<open>Repeated verification\<close>

text \<open>
  Both runs succeed on the sample store, at clock readings 5 and 9, and the store after
  the second run differs from the store after the first: Prisma has refreshed
  \<open>updatedAt\<close>.
\<close>

theorem reverification_refreshes_timestamp:
  "fst (verifyEmailVerificationToken example_libs dev_env 5 ''tok.default-secret'' [alice])
     = Inr ''Email verified successfully''
   \<and> fst (verifyEmailVerificationToken example_libs dev_env 9 ''tok.default-secret''
            (snd (verifyEmailVerificationToken example_libs dev_env 5 ''tok.default-secret'' [alice])))
     = Inr ''Email verified successfully''
   \<and> snd (verifyEmailVerificationToken example_libs dev_env 9 ''tok.default-secret''
            (snd (verifyEmailVerificationToken example_libs dev_env 5 ''tok.default-secret'' [alice])))
     \<noteq> snd (verifyEmailVerificationToken example_libs dev_env 5 ''tok.default-secret'' [alice])"
proof -
  have sec: "secret dev_env = Inr ''default-secret''"
    by (simp add: secret_def dev_env_def)
  have first: "verifyEmailVerificationToken example_libs dev_env 5 ''tok.default-secret'' [alice]
                 = (Inr ''Email verified successfully'',
                    [alice\<lparr>emailIsVerified := True, updatedAt := 5\<rparr>])"
    using sec
    by (simp add: verifyEmailVerificationToken_def verifyEmail_try_def example_libs_def
          prisma_user_update_verified_def alice_def)
  have second: "verifyEmailVerificationToken example_libs dev_env 9 ''tok.default-secret''
                  [alice\<lparr>emailIsVerified := True, updatedAt := 5\<rparr>]
                 = (Inr ''Email verified successfully'',
                    [alice\<lparr>emailIsVerified := True, updatedAt := 9\<rparr>])"
    using sec
    by (simp add: verifyEmailVerificationToken_def verifyEmail_try_def example_libs_def
          prisma_user_update_verified_def alice_def)
  have "updatedAt (alice\<lparr>emailIsVerified := True, updatedAt := 9\<rparr>)
          \<noteq> updatedAt (alice\<lparr>emailIsVerified := True, updatedAt := 5\<rparr>)"
    by simp
  then have "alice\<lparr>emailIsVerified := True, updatedAt := 9\<rparr>
          \<noteq> alice\<lparr>emailIsVerified := True, updatedAt := 5\<rparr>"
    by metis
  then show ?thesis
    by (simp add: first second)
qed

lemma updateFirst_twice:
  "(\<And>x. P x \<Longrightarrow> P (f x)) \<Longrightarrow>
     updateFirst P g (updateFirst P f xs) = updateFirst P (\<lambda>x. g (f x)) xs"
  by (induction xs) auto

lemma updateFirst_cong:
  "(\<And>x. x \<in> set xs \<Longrightarrow> f x = g x) \<Longrightarrow> updateFirst P f xs = updateFirst P g xs"
  by (induction xs) auto

text \<open>
  C8. For a token that verifies at both clock readings with the same \<^verbatim>\<open>email\<close> claim,
  naming a stored user, the second run of \<open>verifyEmailVerificationToken\<close> succeeds like
  the first and the user's flag stays true. The store after the second run is the store
  after the first with that user's \<open>updatedAt\<close> set to the second clock reading: the two
  stores agree in every other field, and are equal when the clock readings are.
\<close>

theorem reverification_idempotent_up_to_timestamp:
  assumes tok: "token \<noteq> []" and sec: "secret ev = Inr s"
    and v1: "jwt_verify L t1 token s = Inr d1" and c1: "map_of d1 ''email'' = Some (JStr e)"
    and v2: "jwt_verify L t2 token s = Inr d2" and c2: "map_of d2 ''email'' = Some (JStr e)"
    and stored: "findUnique_email e st = Some u"
  shows "\<exists>s1 s2.
           verifyEmailVerificationToken L ev t1 token st = (Inr ''Email verified successfully'', s1)
           \<and> verifyEmailVerificationToken L ev t2 token s1 = (Inr ''Email verified successfully'', s2)
           \<and> findUnique_email e s1 = Some (u\<lparr>emailIsVerified := True, updatedAt := t1\<rparr>)
           \<and> findUnique_email e s2 = Some (u\<lparr>emailIsVerified := True, updatedAt := t2\<rparr>)
           \<and> s2 = updateFirst (\<lambda>v. email v = e) (\<lambda>v. v\<lparr>updatedAt := t2\<rparr>) s1
           \<and> map (\<lambda>v. v\<lparr>updatedAt := 0\<rparr>) s2 = map (\<lambda>v. v\<lparr>updatedAt := 0\<rparr>) s1
           \<and> (t2 = t1 \<longrightarrow> s2 = s1)"
proof -
  let ?P = "\<lambda>v. email v = e"
  let ?f = "\<lambda>t v. v\<lparr>emailIsVerified := True, updatedAt := t\<rparr>"
  define s1 where "s1 = updateFirst ?P (?f t1) st"
  define s2 where "s2 = updateFirst ?P (?f t2) s1"
  have fu: "find ?P st = Some u"
    using stored by (simp add: findUnique_email_def)
  then have Pu: "?P u"
    by (auto simp: find_Some_iff)
  have look1: "findUnique_email e s1 = Some (?f t1 u)"
    using fu Pu find_updateFirst [of ?P st u "?f t1"]
    by (simp add: findUnique_email_def s1_def)
  then have fu1: "find ?P s1 = Some (?f t1 u)"
    by (simp add: findUnique_email_def)
  have look2: "findUnique_email e s2 = Some (?f t2 u)"
    using fu1 Pu find_updateFirst [of ?P s1 "?f t1 u" "?f t2"]
    by (simp add: findUnique_email_def s2_def)
  have run1: "verifyEmailVerificationToken L ev t1 token st
                = (Inr ''Email verified successfully'', s1)"
    unfolding s1_def by (rule verifyEmail_accepted [OF tok sec v1 c1 stored])
  have run2: "verifyEmailVerificationToken L ev t2 token s1
                = (Inr ''Email verified successfully'', s2)"
    unfolding s2_def by (rule verifyEmail_accepted [OF tok sec v2 c2 look1])
  have twice: "s2 = updateFirst ?P (\<lambda>v. ?f t2 (?f t1 v)) st"
    unfolding s2_def s1_def by (rule updateFirst_twice) simp
  have stamp: "s2 = updateFirst ?P (\<lambda>v. v\<lparr>updatedAt := t2\<rparr>) s1"
    unfolding twice s1_def by (subst updateFirst_twice) simp_all
  have modulo: "map (\<lambda>v. v\<lparr>updatedAt := 0\<rparr>) (updateFirst ?P (\<lambda>v. v\<lparr>updatedAt := t2\<rparr>) xs)
                  = map (\<lambda>v. v\<lparr>updatedAt := 0\<rparr>) xs" for xs :: store
    by (induction xs) auto
  have same: "t2 = t1 \<longrightarrow> s2 = s1"
    unfolding twice s1_def by (auto intro: updateFirst_cong)
  show ?thesis
    using run1 run2 look1 look2 stamp modulo [of s1] same by (intro exI [of _ s1] exI [of _ s2]) simp
qed


theorem reverification_idempotent_up_to_timestamp_witness:
  "\<exists>s1 s2.
     verifyEmailVerificationToken example_libs dev_env 5 ''tok.default-secret'' [alice]
       = (Inr ''Email verified successfully'', s1)
     \<and> verifyEmailVerificationToken example_libs dev_env 9 ''tok.default-secret'' s1
       = (Inr ''Email verified successfully'', s2)
     \<and> findUnique_email ''a@x.com'' s1 = Some (alice\<lparr>emailIsVerified := True, updatedAt := 5\<rparr>)
     \<and> findUnique_email ''a@x.com'' s2 = Some (alice\<lparr>emailIsVerified := True, updatedAt := 9\<rparr>)"
proof -
  have tok: "''tok.default-secret'' \<noteq> []"
    by simp
  have sec: "secret dev_env = Inr ''default-secret''"
    by (simp add: secret_def dev_env_def)
  have v1: "jwt_verify example_libs 5 ''tok.default-secret'' ''default-secret''
              = Inr [(''email'', JStr ''a@x.com'')]"
    by (simp add: example_libs_def)
  have v2: "jwt_verify example_libs 9 ''tok.default-secret'' ''default-secret''
              = Inr [(''email'', JStr ''a@x.com'')]"
    by (simp add: example_libs_def)
  have claim: "map_of [(''email'', JStr ''a@x.com'')] ''email'' = Some (JStr ''a@x.com'')"
    by simp
  have stored: "findUnique_email ''a@x.com'' [alice] = Some alice"
    by (simp add: findUnique_email_def alice_def)
  from reverification_idempotent_up_to_timestamp [OF tok sec v1 claim v2 claim stored]
  obtain s1 s2 where
    "verifyEmailVerificationToken example_libs dev_env 5 ''tok.default-secret'' [alice]
       = (Inr ''Email verified successfully'', s1)"
    "verifyEmailVerificationToken example_libs dev_env 9 ''tok.default-secret'' s1
       = (Inr ''Email verified successfully'', s2)"
    "findUnique_email ''a@x.com'' s1 = Some (alice\<lparr>emailIsVerified := True, updatedAt := 5\<rparr>)"
    "findUnique_email ''a@x.com'' s2 = Some (alice\<lparr>emailIsVerified := True, updatedAt := 9\<rparr>)"
    by blast
  then show ?thesis
    by blast
qed

subsection \<open>Requesting a verification mail\<close>

text \<open>
  For a stored user the operation still fails, and hands nothing to the mailer, when
  the secret does not resolve (production without \<^verbatim>\<open>JWT_SECRET\<close>) or when the base URL
  does not parse.
\<close>

theorem requestEmailVerification_unconfigured_fails:
  "findUnique_email ''a@x.com'' [alice] = Some alice
   \<and> requestEmailVerification example_libs prod_env 5 ''a@x.com'' ''1'' [alice] []
       = (Inl ConfigurationError, [])
   \<and> requestEmailVerification example_libs bad_url_env 5 ''a@x.com'' ''1'' [alice] []
       = (Inl (LibraryError ''TypeError'' ''Invalid URL''), [])"
  by (simp add: requestEmailVerification_def generateEmailVerificationToken_def
        sendEmailVerificationEmail_def generateVerificationLink_def findUnique_email_def
        secret_def ConfigurationError_def alice_def prod_env_def bad_url_env_def
        example_libs_def)

text \<open>
  C7. \<open>requestEmailVerification\<close> for an email no stored user has fails with
  \<open>UserNotFound\<close> and hands nothing to the mailer. For an email of a stored user, when
  the secret resolves and the base URL parses, the token is \<^verbatim>\<open>jwt.sign\<close> of the payload
  with the single claim \<^verbatim>\<open>email\<close> and \<^verbatim>\<open>expiresIn: '1h'\<close>; the link is the base URL's
  \<^verbatim>\<open>/verify-email\<close> with that token as its \<^verbatim>\<open>token\<close> parameter; and the message handed
  to the mailer is addressed to that email and contains the link in its body. When the
  secret does not resolve, the operation fails with the error of \<open>secret\<close>; when the base
  URL does not parse, with a \<^verbatim>\<open>TypeError\<close>; in both cases nothing is handed to the mailer.
\<close>

theorem requestEmailVerification_outcomes:
  "(findUnique_email e st = None \<longrightarrow>
      generateEmailVerificationToken L ev now e uid st = Inl UserNotFound
      \<and> requestEmailVerification L ev now e uid st outbox = (Inl UserNotFound, outbox))
   \<and> (findUnique_email e st = Some u \<and> secret ev = Inr s
        \<and> URL_new L ''/verify-email'' (or_default (API_URL ev) ''http://localhost:8080'') = Some url \<longrightarrow>
        (let token = jwt_sign L now [(''email'', JStr e)] s ''1h'';
             link = searchParams_set L url ''token'' token;
             m = \<lparr>mail_from = or_default (SMTP_FROM ev) ''stationphast@gmail.com'',
                  mail_to = e, mail_subject = ''Email Verification'',
                  mail_html = generateEmailTemplate (verification_markup link)\<rparr>
         in generateEmailVerificationToken L ev now e uid st = Inr token
            \<and> generateVerificationLink L ev token = Inr link
            \<and> (\<exists>pre post. mail_html m = pre @ link @ post)
            \<and> requestEmailVerification L ev now e uid st outbox =
                (if smtp_accepts L m then (Inr (), outbox @ [m])
                 else (Inl (InternalServerErrorException ''Error sending email''), outbox))))
   \<and> (findUnique_email e st = Some u \<and> secret ev = Inl err \<longrightarrow>
        generateEmailVerificationToken L ev now e uid st = Inl err
        \<and> requestEmailVerification L ev now e uid st outbox = (Inl err, outbox))
   \<and> (findUnique_email e st = Some u \<and> secret ev = Inr s
        \<and> URL_new L ''/verify-email'' (or_default (API_URL ev) ''http://localhost:8080'') = None \<longrightarrow>
        requestEmailVerification L ev now e uid st outbox
          = (Inl (LibraryError ''TypeError'' ''Invalid URL''), outbox))"
proof (intro conjI impI)
  assume "findUnique_email e st = Some u \<and> secret ev = Inl err"
  then show "generateEmailVerificationToken L ev now e uid st = Inl err"
    by (simp add: generateEmailVerificationToken_def)
  then show "requestEmailVerification L ev now e uid st outbox = (Inl err, outbox)"
    by (simp add: requestEmailVerification_def)
next
  assume "findUnique_email e st = Some u \<and> secret ev = Inr s
        \<and> URL_new L ''/verify-email'' (or_default (API_URL ev) ''http://localhost:8080'') = None"
  then show "requestEmailVerification L ev now e uid st outbox
          = (Inl (LibraryError ''TypeError'' ''Invalid URL''), outbox)"
    by (simp add: requestEmailVerification_def generateEmailVerificationToken_def
          sendEmailVerificationEmail_def generateVerificationLink_def)
next
  assume none: "findUnique_email e st = None"
  then show "generateEmailVerificationToken L ev now e uid st = Inl UserNotFound"
    by (simp add: generateEmailVerificationToken_def UserNotFound_def)
  then show "requestEmailVerification L ev now e uid st outbox = (Inl UserNotFound, outbox)"
    by (simp add: requestEmailVerification_def)
next
  assume a: "findUnique_email e st = Some u \<and> secret ev = Inr s
        \<and> URL_new L ''/verify-email'' (or_default (API_URL ev) ''http://localhost:8080'') = Some url"
  define token where "token = jwt_sign L now [(''email'', JStr e)] s ''1h''"
  define link where "link = searchParams_set L url ''token'' token"
  define m where "m = \<lparr>mail_from = or_default (SMTP_FROM ev) ''stationphast@gmail.com'',
                  mail_to = e, mail_subject = ''Email Verification'',
                  mail_html = generateEmailTemplate (verification_markup link)\<rparr>"
  have gen: "generateEmailVerificationToken L ev now e uid st = Inr token"
    using a by (simp add: generateEmailVerificationToken_def token_def)
  have lnk: "generateVerificationLink L ev token = Inr link"
    using a by (simp add: generateVerificationLink_def link_def)
  have emb: "\<exists>pre post. mail_html m = pre @ link @ post"
  proof -
    have "verification_markup link =
            (nl @ ''        <h1>Welcome to MyLibrary!</h1>''
             @ nl @ ''        <p>Please click the button below to verify your email address</p>''
             @ nl @ ''        <a href='' @ dq) @ link @
            (dq @ '' style='' @ dq
             @ ''background-color: #007bff; color: white; padding: 10px 20px; border-radius: 5px; text-decoration: none;''
             @ dq @ ''>''
             @ nl @ ''          <button style='' @ dq
             @ ''background-color: #007bff; color: white; padding: 10px 20px; text-decoration: none;''
             @ dq @ ''>''
             @ nl @ ''            Verify Email''
             @ nl @ ''          </button>''
             @ nl @ ''        </a>''
             @ nl @ ''    '')"
      by (simp add: verification_markup_def)
    then obtain a b where ab: "verification_markup link = a @ link @ b"
      by blast
    have "generateEmailTemplate (a @ link @ b) =
            (nl @ ''        <body style='' @ dq @ ''font-family: Arial, sans-serif; text-align: center;'' @ dq @ ''>''
             @ nl @ ''            '' @ a) @ link @ (b @ nl @ ''        </body>'' @ nl @ ''    '')"
      by (simp add: generateEmailTemplate_def)
    with ab show ?thesis
      unfolding m_def by (metis mail.select_convs(4))
  qed
  have snd: "requestEmailVerification L ev now e uid st outbox =
                (if smtp_accepts L m then (Inr (), outbox @ [m])
                 else (Inl (InternalServerErrorException ''Error sending email''), outbox))"
    using gen lnk
    by (simp add: requestEmailVerification_def sendEmailVerificationEmail_def sendEmail_def
          m_def Let_def)
  show "let token = jwt_sign L now [(''email'', JStr e)] s ''1h'';
             link = searchParams_set L url ''token'' token;
             m = \<lparr>mail_from = or_default (SMTP_FROM ev) ''stationphast@gmail.com'',
                  mail_to = e, mail_subject = ''Email Verification'',
                  mail_html = generateEmailTemplate (verification_markup link)\<rparr>
         in generateEmailVerificationToken L ev now e uid st = Inr token
            \<and> generateVerificationLink L ev token = Inr link
            \<and> (\<exists>pre post. mail_html m = pre @ link @ post)
            \<and> requestEmailVerification L ev now e uid st outbox =
                (if smtp_accepts L m then (Inr (), outbox @ [m])
                 else (Inl (InternalServerErrorException ''Error sending email''), outbox))"
    using gen lnk emb snd unfolding Let_def token_def link_def m_def by blast
qed

theorem requestEmailVerification_outcomes_witness:
  "requestEmailVerification example_libs dev_env 5 ''b@x.com'' ''7'' [alice] []
     = (Inl UserNotFound, [])
   \<and> generateEmailVerificationToken example_libs dev_env 5 ''a@x.com'' ''1'' [alice]
     = Inr ''tok.default-secret''
   \<and> generateVerificationLink example_libs dev_env ''tok.default-secret''
     = Inr ''http://localhost:8080/verify-email?token=tok.default-secret''
   \<and> requestEmailVerification example_libs dev_env 5 ''a@x.com'' ''1'' [alice] []
     = (Inr (),
        [\<lparr>mail_from = ''stationphast@gmail.com'', mail_to = ''a@x.com'',
          mail_subject = ''Email Verification'',
          mail_html = generateEmailTemplate (verification_markup
            ''http://localhost:8080/verify-email?token=tok.default-secret'')\<rparr>])
   \<and> requestEmailVerification example_libs configured_env 5 ''a@x.com'' ''1'' [alice] []
     = (Inr (),
        [\<lparr>mail_from = ''stationphast@gmail.com'', mail_to = ''a@x.com'',
          mail_subject = ''Email Verification'',
          mail_html = generateEmailTemplate (verification_markup
            ''http://localhost:8080/verify-email?token=tok.s3cret'')\<rparr>])
   \<and> generateEmailVerificationToken example_libs prod_env 5 ''a@x.com'' ''1'' [alice]
     = Inl ConfigurationError
   \<and> requestEmailVerification example_libs prod_env 5 ''a@x.com'' ''1'' [alice] [alice_mail]
     = (Inl ConfigurationError, [alice_mail])
   \<and> requestEmailVerification example_libs bad_url_env 5 ''a@x.com'' ''1'' [alice] [alice_mail]
     = (Inl (LibraryError ''TypeError'' ''Invalid URL''), [alice_mail])"
proof -
  have unknown: "findUnique_email ''b@x.com'' [alice] = None"
    by (simp add: findUnique_email_def alice_def)
  have known: "findUnique_email ''a@x.com'' [alice] = Some alice
        \<and> secret dev_env = Inr ''default-secret''
        \<and> URL_new example_libs ''/verify-email''
            (or_default (API_URL dev_env) ''http://localhost:8080'')
          = Some ''http://localhost:8080/verify-email''"
    by (simp add: findUnique_email_def alice_def secret_def dev_env_def example_libs_def)
  have tok: "jwt_sign example_libs 5 [(''email'', JStr ''a@x.com'')] ''default-secret'' ''1h''
               = ''tok.default-secret''"
    by (simp add: example_libs_def)
  have lnk: "searchParams_set example_libs ''http://localhost:8080/verify-email'' ''token''
               ''tok.default-secret''
               = ''http://localhost:8080/verify-email?token=tok.default-secret''"
    by (simp add: example_libs_def)
  have from_addr: "or_default (SMTP_FROM dev_env) ''stationphast@gmail.com''
                     = ''stationphast@gmail.com''"
    by (simp add: dev_env_def)
  have accepts: "smtp_accepts example_libs m" for m
    by (simp add: example_libs_def)
  note refused =
    requestEmailVerification_outcomes [where e = "''b@x.com''" and st = "[alice]"
      and L = example_libs and ev = dev_env and now = 5 and uid = "''7''" and outbox = "[]",
      THEN conjunct1, THEN mp, OF unknown, THEN conjunct2]
  note sent =
    requestEmailVerification_outcomes [where e = "''a@x.com''" and st = "[alice]"
      and L = example_libs and ev = dev_env and now = 5 and uid = "''1''" and outbox = "[]"
      and u = alice and s = "''default-secret''" and url = "''http://localhost:8080/verify-email''",
      THEN conjunct2, THEN conjunct1, THEN mp, OF known, unfolded Let_def tok lnk from_addr]
  have known2: "findUnique_email ''a@x.com'' [alice] = Some alice
        \<and> secret configured_env = Inr ''s3cret''
        \<and> URL_new example_libs ''/verify-email''
            (or_default (API_URL configured_env) ''http://localhost:8080'')
          = Some ''http://localhost:8080/verify-email''"
    by (simp add: findUnique_email_def alice_def secret_def configured_env_def example_libs_def)
  have tok2: "jwt_sign example_libs 5 [(''email'', JStr ''a@x.com'')] ''s3cret'' ''1h''
               = ''tok.s3cret''"
    by (simp add: example_libs_def)
  have lnk2: "searchParams_set example_libs ''http://localhost:8080/verify-email'' ''token''
               ''tok.s3cret''
               = ''http://localhost:8080/verify-email?token=tok.s3cret''"
    by (simp add: example_libs_def)
  have from_addr2: "or_default (SMTP_FROM configured_env) ''stationphast@gmail.com''
                     = ''stationphast@gmail.com''"
    by (simp add: configured_env_def)
  note sent2 =
    requestEmailVerification_outcomes [where e = "''a@x.com''" and st = "[alice]"
      and L = example_libs and ev = configured_env and now = 5 and uid = "''1''"
      and outbox = "[]" and u = alice and s = "''s3cret''"
      and url = "''http://localhost:8080/verify-email''",
      THEN conjunct2, THEN conjunct1, THEN mp, OF known2,
      unfolded Let_def tok2 lnk2 from_addr2]
  have no_secret: "findUnique_email ''a@x.com'' [alice] = Some alice
        \<and> secret prod_env = Inl ConfigurationError"
    by (simp add: findUnique_email_def alice_def secret_def prod_env_def ConfigurationError_def)
  note unconfigured =
    requestEmailVerification_outcomes [where e = "''a@x.com''" and st = "[alice]"
      and L = example_libs and ev = prod_env and now = 5 and uid = "''1''"
      and outbox = "[alice_mail]" and u = alice and err = ConfigurationError,
      THEN conjunct2, THEN conjunct2, THEN conjunct1, THEN mp, OF no_secret]
  have no_base: "findUnique_email ''a@x.com'' [alice] = Some alice
        \<and> secret bad_url_env = Inr ''default-secret''
        \<and> URL_new example_libs ''/verify-email''
            (or_default (API_URL bad_url_env) ''http://localhost:8080'')
          = None"
    by (simp add: findUnique_email_def alice_def secret_def bad_url_env_def example_libs_def)
  note unparsable =
    requestEmailVerification_outcomes [where e = "''a@x.com''" and st = "[alice]"
      and L = example_libs and ev = bad_url_env and now = 5 and uid = "''1''"
      and outbox = "[alice_mail]" and u = alice and s = "''default-secret''",
      THEN conjunct2, THEN conjunct2, THEN conjunct2, THEN mp, OF no_base]
  show ?thesis
    using refused sent sent2 unconfigured unparsable accepts by simp
qed

subsection \<open>Token round trip\<close>

text \<open>
  C3. Verifying \<open>issue claims ttl\<close> under the same secret returns exactly the claims
  at every clock reading before \<open>ttl\<close> has elapsed and fails with \<open>TokenExpiredError\<close>
  from then on. A token whose payload is malformed or whose signature is not the one the
  secret gives fails with \<open>TokenInvalidError\<close>; \<open>TokenExpiredError\<close> is only ever the
  answer to a well-formed, correctly signed token past its expiry.
\<close>

theorem token_roundtrip:
  "(now < t0 + ttl \<longrightarrow> verify sign sec now (issue sign sec t0 claims ttl) = Inr claims)
   \<and> (t0 + ttl \<le> now \<longrightarrow>
        verify sign sec now (issue sign sec t0 claims ttl) = Inl TokenExpiredError)
   \<and> (payload t = None \<longrightarrow> verify sign sec now t = Inl TokenInvalidError)
   \<and> (payload t = Some (c, e) \<and> signature t \<noteq> sign sec (c, e) \<longrightarrow>
        verify sign sec now t = Inl TokenInvalidError)
   \<and> (verify sign sec now t = Inl TokenExpiredError \<longrightarrow>
        (\<exists>c e. payload t = Some (c, e) \<and> signature t = sign sec (c, e) \<and> e \<le> now))"
proof (intro conjI impI)
  assume "now < t0 + ttl"
  then show "verify sign sec now (issue sign sec t0 claims ttl) = Inr claims"
    by (simp add: verify_def issue_def)
next
  assume "t0 + ttl \<le> now"
  then show "verify sign sec now (issue sign sec t0 claims ttl) = Inl TokenExpiredError"
    by (simp add: verify_def issue_def)
next
  assume "payload t = None"
  then show "verify sign sec now t = Inl TokenInvalidError"
    by (simp add: verify_def)
next
  assume "payload t = Some (c, e) \<and> signature t \<noteq> sign sec (c, e)"
  then show "verify sign sec now t = Inl TokenInvalidError"
    by (simp add: verify_def)
next
  assume "verify sign sec now t = Inl TokenExpiredError"
  then show "\<exists>c e. payload t = Some (c, e) \<and> signature t = sign sec (c, e) \<and> e \<le> now"
    by (auto simp: verify_def split: option.splits prod.splits if_splits)
qed

theorem token_roundtrip_witness:
  "verify example_sign ''k'' 3599 (issue example_sign ''k'' 0 ''a@x.com'' 3600) = Inr ''a@x.com''
   \<and> verify example_sign ''k'' 3600 (issue example_sign ''k'' 0 ''a@x.com'' 3600)
       = Inl TokenExpiredError
   \<and> verify example_sign ''k'' 5 \<lparr>payload = None :: (string \<times> nat) option, signature = ''k/a@x.com''\<rparr>
       = Inl TokenInvalidError
   \<and> verify example_sign ''k'' 5 \<lparr>payload = Some (''a@x.com'', 3600), signature = ''forged''\<rparr>
       = Inl TokenInvalidError
   \<and> verify example_sign ''other'' 5 (issue example_sign ''k'' 0 ''a@x.com'' 3600)
       = Inl TokenInvalidError
   \<and> (\<exists>c e. payload (issue example_sign ''k'' 0 ''a@x.com'' 3600) = Some (c, e) \<and> e \<le> 3600)"
proof -
  let ?t = "issue example_sign ''k'' 0 ''a@x.com'' 3600"
  note early =
    token_roundtrip [where now = 3599 and ?t0.0 = 0 and ttl = 3600 and sign = example_sign
      and sec = "''k''" and claims = "''a@x.com''", THEN conjunct1]
  note late =
    token_roundtrip [where now = 3600 and ?t0.0 = 0 and ttl = 3600 and sign = example_sign
      and sec = "''k''" and claims = "''a@x.com''", THEN conjunct2, THEN conjunct1]
  note malformed =
    token_roundtrip [where now = 5 and sign = example_sign and sec = "''k''"
      and t = "\<lparr>payload = None :: (string \<times> nat) option, signature = ''k/a@x.com''\<rparr>",
      THEN conjunct2, THEN conjunct2, THEN conjunct1]
  note forged =
    token_roundtrip [where now = 5 and sign = example_sign and sec = "''k''"
      and t = "\<lparr>payload = Some (''a@x.com'', 3600), signature = ''forged''\<rparr>"
      and c = "''a@x.com''" and e = 3600,
      THEN conjunct2, THEN conjunct2, THEN conjunct2, THEN conjunct1]
  note other_key =
    token_roundtrip [where now = 5 and sign = example_sign and sec = "''other''"
      and t = ?t and c = "''a@x.com''" and e = 3600,
      THEN conjunct2, THEN conjunct2, THEN conjunct2, THEN conjunct1]
  note expired =
    token_roundtrip [where now = 3600 and sign = example_sign and sec = "''k''" and t = ?t,
      THEN conjunct2, THEN conjunct2, THEN conjunct2, THEN conjunct2]
  have w1: "verify example_sign ''k'' 3599 ?t = Inr ''a@x.com''"
    using early by simp
  have w2: "verify example_sign ''k'' 3600 ?t = Inl TokenExpiredError"
    using late by simp
  have w3: "verify example_sign ''k'' 5
              \<lparr>payload = None :: (string \<times> nat) option, signature = ''k/a@x.com''\<rparr>
              = Inl TokenInvalidError"
    using malformed by simp
  have w4: "verify example_sign ''k'' 5
              \<lparr>payload = Some (''a@x.com'', 3600), signature = ''forged''\<rparr>
              = Inl TokenInvalidError"
    using forged by (simp add: example_sign_def)
  have w5: "verify example_sign ''other'' 5 ?t = Inl TokenInvalidError"
    using other_key by (simp add: example_sign_def issue_def)
  have w6: "\<exists>c e. payload ?t = Some (c, e) \<and> e \<le> 3600"
    using expired w2 by blast
  show ?thesis
    using w1 w2 w3 w4 w5 w6 by simp
qed

end
